theory Spec2Isabelle
  imports
    Main
    "HOL-Library.Multiset"
    "HOL-Library.Char_ord"
    "HOL-Library.List_Lexorder"
    "HOL-Library.Product_Lexorder"
begin

section \<open>Data model\<close>

text \<open>
  The records follow the interfaces \<^verbatim>\<open>FileItem\<close> (FileContext.tsx), \<^verbatim>\<open>Note\<close> and
  \<^verbatim>\<open>ChecklistItem\<close> (NotesContext.tsx). An optional field (\<^verbatim>\<open>url?: string\<close>) is an
  option; \<^verbatim>\<open>null\<close> and a missing field are both \<open>None\<close>. A Firestore
  \<^verbatim>\<open>Timestamp\<close> is read by the code through \<^verbatim>\<open>toMillis()\<close> only and is written through
  \<^verbatim>\<open>Timestamp.now()\<close> only, so it is modelled as its number of milliseconds. Strings are
  \<open>string\<close>. Fields of a note whose names are also fields of a file carry the suffix
  \<open>_note\<close>; \<open>id\<close> and \<open>size\<close> carry a suffix because HOL has constants of these names.
\<close>

type_synonym timestamp = int

definition toMillis :: "timestamp \<Rightarrow> int" where
  "toMillis t = t"

datatype fileType = Document | Image | Video | Folder

text \<open>What \<^verbatim>\<open>doc.data()\<close> holds for a document of the collection \<^verbatim>\<open>files\<close>.\<close>

record fileData =
  name :: string
  type :: fileType
  url :: "string option"
  content :: "string option"
  createdAt :: timestamp
  updatedAt :: timestamp
  userId :: string
  parentId :: "string option"
  size_file :: "nat option"
  isStarred :: bool
  isShared :: bool
  sharedWith :: "string list option"
  thumbnailUrl :: "string option"

text \<open>\<^verbatim>\<open>FileItem\<close>: the data of the document together with its id.\<close>

record fileItem = fileData +
  id_file :: string

record checklistItem =
  id_item :: string
  "text" :: string
  isCompleted :: bool

datatype viewModeT = Grid | ListView

text \<open>What \<^verbatim>\<open>doc.data()\<close> holds for a document of the collection \<^verbatim>\<open>notes\<close>.\<close>

record noteData =
  title :: string
  content_note :: string
  createdAt_note :: timestamp
  updatedAt_note :: timestamp
  userId_note :: string
  color :: string
  labels :: "string list"
  isPinned :: bool
  aiSummary :: "string option"
  aiSuggestions :: "string list option"
  viewMode :: viewModeT
  checklistItems :: "checklistItem list"

record noteItem = noteData +
  id_note :: string

record crumb =
  id_crumb :: string
  name_crumb :: string

text \<open>The signed-in user, as far as the two providers read it: \<^verbatim>\<open>currentUser.uid\<close>.\<close>

record user =
  uid :: string

text \<open>
  The live query that \<^verbatim>\<open>onSnapshot\<close> listens to: the owner and, for files, the parent
  folder of the two \<^verbatim>\<open>where\<close> clauses.
\<close>

record fileQuery =
  owner_q :: string
  parent_q :: "string option"

text \<open>
  The state of \<^verbatim>\<open>FileProvider\<close>: its three \<^verbatim>\<open>useState\<close> cells, the identity it reads
  from \<^verbatim>\<open>useAuth()\<close>, and the subscription that its effect currently holds
  (\<open>None\<close> after \<^verbatim>\<open>unsubscribe()\<close> or when the effect returned early).
\<close>

record fileState =
  files :: "fileItem list"
  currentFolder :: "string option"
  breadcrumbs :: "crumb list"
  currentUser :: "user option"
  subscription :: "fileQuery option"

text \<open>The state of \<^verbatim>\<open>NotesProvider\<close>.\<close>

record notesState =
  "notes" :: "noteItem list"
  viewMode_state :: viewModeT
  currentUser_notes :: "user option"
  subscription_notes :: "string option"

definition rootCrumb :: crumb where
  "rootCrumb = \<lparr>id_crumb = ''root'', name_crumb = ''My Drive''\<rparr>"

text \<open>The initial values of the \<^verbatim>\<open>useState\<close> cells.\<close>

definition initialFileState :: fileState where
  "initialFileState =
     \<lparr>files = [], currentFolder = None, breadcrumbs = [rootCrumb],
      currentUser = None, subscription = None\<rparr>"

definition initialNotesState :: notesState where
  "initialNotesState =
     \<lparr>notes = [], viewMode_state = Grid, currentUser_notes = None,
      subscription_notes = None\<rparr>"

section \<open>JavaScript helpers\<close>

text \<open>
  Truthiness of a \<^verbatim>\<open>string | null | undefined\<close>: only a non-empty string is truthy.
  \<open>orElse a b\<close> is \<^verbatim>\<open>a || b\<close>.
\<close>

definition truthy :: "string option \<Rightarrow> bool" where
  "truthy a = (case a of None \<Rightarrow> False | Some v \<Rightarrow> v \<noteq> [])"

definition orElse :: "string option \<Rightarrow> string option \<Rightarrow> string option" where
  "orElse a b = (if truthy a then a else b)"

text \<open>
  \<^verbatim>\<open>Array.prototype.sort(cmp)\<close>: a stable sort; \<open>a\<close> stays before \<open>b\<close> unless
  \<^verbatim>\<open>cmp(a, b) > 0\<close>. For a comparator that is a total preorder the result of every
  stable sort is the same list, here computed by insertion from the right.
\<close>

fun insertBy :: "('a \<Rightarrow> 'a \<Rightarrow> int) \<Rightarrow> 'a \<Rightarrow> 'a list \<Rightarrow> 'a list" where
  "insertBy cmp x [] = [x]"
| "insertBy cmp x (y # ys) =
     (if cmp x y \<le> 0 then x # y # ys else y # insertBy cmp x ys)"

definition arraySort :: "('a \<Rightarrow> 'a \<Rightarrow> int) \<Rightarrow> 'a list \<Rightarrow> 'a list" where
  "arraySort cmp xs = foldr (insertBy cmp) xs []"

section \<open>Subscription callbacks\<close>

text \<open>
  A snapshot is the list of the documents of the pushed result set, each with its id and
  its data, in the order in which \<^verbatim>\<open>snapshot.forEach\<close> visits them.
  \<^verbatim>\<open>{ id: doc.id, ...doc.data() }\<close> extends the data by the id.
\<close>

definition toFileItem :: "string \<times> fileData \<Rightarrow> fileItem" where
  "toFileItem d = fileData.extend (snd d) (fileItem.fields (fst d))"

definition toNote :: "string \<times> noteData \<Rightarrow> noteItem" where
  "toNote d = noteData.extend (snd d) (noteItem.fields (fst d))"

text \<open>The document a local item came from.\<close>

definition docOfFile :: "fileItem \<Rightarrow> string \<times> fileData" where
  "docOfFile f = (id_file f, fileData.truncate f)"

definition docOfNote :: "noteItem \<Rightarrow> string \<times> noteData" where
  "docOfNote n = (id_note n, noteData.truncate n)"

text \<open>FileContext.tsx, lines 90 to 96.\<close>

definition filesOnSnapshot :: "fileState \<Rightarrow> (string \<times> fileData) list \<Rightarrow> fileState" where
  "filesOnSnapshot s snapshot = s\<lparr>files := map toFileItem snapshot\<rparr>"

text \<open>The comparator of NotesContext.tsx, lines 85 to 90.\<close>

definition compareNotes :: "noteItem \<Rightarrow> noteItem \<Rightarrow> int" where
  "compareNotes a b =
     (if isPinned a \<noteq> isPinned b then (if isPinned a then - 1 else 1)
      else toMillis (updatedAt_note b) - toMillis (updatedAt_note a))"

text \<open>NotesContext.tsx, lines 80 to 91.\<close>

definition notesOnSnapshot :: "notesState \<Rightarrow> (string \<times> noteData) list \<Rightarrow> notesState" where
  "notesOnSnapshot s snapshot = s\<lparr>notes := arraySort compareNotes (map toNote snapshot)\<rparr>"

text \<open>The order the comparator decides: \<open>a\<close> may stand before \<open>b\<close>.\<close>

definition noteBefore :: "noteItem \<Rightarrow> noteItem \<Rightarrow> bool" where
  "noteBefore a b \<longleftrightarrow> compareNotes a b \<le> 0"

section \<open>The remote stores\<close>

text \<open>
  Firestore and Firebase Storage are external services. The model keeps what they hold
  (the documents of the two collections, each with its id, and the objects of the blob
  store by path) and a log of every call the program makes to them, in order, whether the
  call succeeds or not. What a service answers is not decided by the program: the answers
  to the calls of one operation are given by an \<open>env\<close>, together with the two clocks.
\<close>

datatype error = StorageError string | FirestoreError string | NotFoundError string

datatype call =
    UploadBytes string
  | GetDownloadURL string
  | AddDoc string
  | UpdateDoc string string
  | DeleteDoc string string

record remote =
  fileDocs :: "(string \<times> fileData) list"
  noteDocs :: "(string \<times> noteData) list"
  blobs :: "(string \<times> nat list) list"
  calls :: "call list"

record env =
  dateNow :: nat
  timestampNow :: timestamp
  uploadBytesFault :: "error option"
  getDownloadURLResult :: "error + string"
  addDocResult :: "error + string"
  updateDocFault :: "error option"
  deleteDocFault :: "error option"

definition logCall :: "call \<Rightarrow> remote \<Rightarrow> remote" where
  "logCall c r = r\<lparr>calls := calls r @ [c]\<rparr>"

text \<open>\<^verbatim>\<open>uploadBytes(ref, file)\<close>: stores the bytes under the path, replacing an older object.\<close>

definition uploadBytes :: "env \<Rightarrow> string \<Rightarrow> nat list \<Rightarrow> remote \<Rightarrow> (error + unit) \<times> remote" where
  "uploadBytes e path payload r =
     (let r' = logCall (UploadBytes path) r in
      case uploadBytesFault e of
        Some err \<Rightarrow> (Inl err, r')
      | None \<Rightarrow>
          (Inr (), r'\<lparr>blobs := (path, payload) # filter (\<lambda>b. fst b \<noteq> path) (blobs r')\<rparr>))"

definition getDownloadURL :: "env \<Rightarrow> string \<Rightarrow> remote \<Rightarrow> (error + string) \<times> remote" where
  "getDownloadURL e path r = (getDownloadURLResult e, logCall (GetDownloadURL path) r)"

text \<open>\<^verbatim>\<open>addDoc(collection(db, 'files'), data)\<close>: the store chooses the id.\<close>

definition addFileDoc :: "env \<Rightarrow> fileData \<Rightarrow> remote \<Rightarrow> (error + string) \<times> remote" where
  "addFileDoc e d r =
     (let r' = logCall (AddDoc ''files'') r in
      case addDocResult e of
        Inl err \<Rightarrow> (Inl err, r')
      | Inr newId \<Rightarrow> (Inr newId, r'\<lparr>fileDocs := fileDocs r' @ [(newId, d)]\<rparr>))"

definition addNoteDoc :: "env \<Rightarrow> noteData \<Rightarrow> remote \<Rightarrow> (error + string) \<times> remote" where
  "addNoteDoc e d r =
     (let r' = logCall (AddDoc ''notes'') r in
      case addDocResult e of
        Inl err \<Rightarrow> (Inl err, r')
      | Inr newId \<Rightarrow> (Inr newId, r'\<lparr>noteDocs := noteDocs r' @ [(newId, d)]\<rparr>))"

text \<open>
  The object given to \<^verbatim>\<open>updateDoc\<close> is a list of field assignments; any field of a
  document can be assigned. \<^verbatim>\<open>updateDoc\<close> writes the assigned fields of the document with
  the given id and leaves its other fields; it fails when no document has the id.
\<close>

datatype fileField =
    Set_name string
  | Set_type fileType
  | Set_url "string option"
  | Set_content "string option"
  | Set_createdAt timestamp
  | Set_updatedAt timestamp
  | Set_userId string
  | Set_parentId "string option"
  | Set_size "nat option"
  | Set_isStarred bool
  | Set_isShared bool
  | Set_sharedWith "string list option"
  | Set_thumbnailUrl "string option"

fun setFileField :: "fileData \<Rightarrow> fileField \<Rightarrow> fileData" where
  "setFileField d (Set_name v) = d\<lparr>name := v\<rparr>"
| "setFileField d (Set_type v) = d\<lparr>type := v\<rparr>"
| "setFileField d (Set_url v) = d\<lparr>url := v\<rparr>"
| "setFileField d (Set_content v) = d\<lparr>content := v\<rparr>"
| "setFileField d (Set_createdAt v) = d\<lparr>createdAt := v\<rparr>"
| "setFileField d (Set_updatedAt v) = d\<lparr>updatedAt := v\<rparr>"
| "setFileField d (Set_userId v) = d\<lparr>userId := v\<rparr>"
| "setFileField d (Set_parentId v) = d\<lparr>parentId := v\<rparr>"
| "setFileField d (Set_size v) = d\<lparr>size_file := v\<rparr>"
| "setFileField d (Set_isStarred v) = d\<lparr>isStarred := v\<rparr>"
| "setFileField d (Set_isShared v) = d\<lparr>isShared := v\<rparr>"
| "setFileField d (Set_sharedWith v) = d\<lparr>sharedWith := v\<rparr>"
| "setFileField d (Set_thumbnailUrl v) = d\<lparr>thumbnailUrl := v\<rparr>"

datatype noteField =
    Set_title string
  | Set_content_note string
  | Set_createdAt_note timestamp
  | Set_updatedAt_note timestamp
  | Set_userId_note string
  | Set_color string
  | Set_labels "string list"
  | Set_isPinned bool
  | Set_aiSummary "string option"
  | Set_aiSuggestions "string list option"
  | Set_viewMode viewModeT
  | Set_checklistItems "checklistItem list"

fun setNoteField :: "noteData \<Rightarrow> noteField \<Rightarrow> noteData" where
  "setNoteField d (Set_title v) = d\<lparr>title := v\<rparr>"
| "setNoteField d (Set_content_note v) = d\<lparr>content_note := v\<rparr>"
| "setNoteField d (Set_createdAt_note v) = d\<lparr>createdAt_note := v\<rparr>"
| "setNoteField d (Set_updatedAt_note v) = d\<lparr>updatedAt_note := v\<rparr>"
| "setNoteField d (Set_userId_note v) = d\<lparr>userId_note := v\<rparr>"
| "setNoteField d (Set_color v) = d\<lparr>color := v\<rparr>"
| "setNoteField d (Set_labels v) = d\<lparr>labels := v\<rparr>"
| "setNoteField d (Set_isPinned v) = d\<lparr>isPinned := v\<rparr>"
| "setNoteField d (Set_aiSummary v) = d\<lparr>aiSummary := v\<rparr>"
| "setNoteField d (Set_aiSuggestions v) = d\<lparr>aiSuggestions := v\<rparr>"
| "setNoteField d (Set_viewMode v) = d\<lparr>viewMode := v\<rparr>"
| "setNoteField d (Set_checklistItems v) = d\<lparr>checklistItems := v\<rparr>"

definition updateFileDoc ::
  "env \<Rightarrow> string \<Rightarrow> fileField list \<Rightarrow> remote \<Rightarrow> (error + unit) \<times> remote" where
  "updateFileDoc e i updateData r =
     (let r' = logCall (UpdateDoc ''files'' i) r in
      case updateDocFault e of
        Some err \<Rightarrow> (Inl err, r')
      | None \<Rightarrow>
          if i \<in> set (map fst (fileDocs r'))
          then (Inr (), r'\<lparr>fileDocs :=
                  map (\<lambda>d. if fst d = i then (i, foldl setFileField (snd d) updateData) else d)
                    (fileDocs r')\<rparr>)
          else (Inl (NotFoundError i), r'))"

definition updateNoteDoc ::
  "env \<Rightarrow> string \<Rightarrow> noteField list \<Rightarrow> remote \<Rightarrow> (error + unit) \<times> remote" where
  "updateNoteDoc e i updateData r =
     (let r' = logCall (UpdateDoc ''notes'' i) r in
      case updateDocFault e of
        Some err \<Rightarrow> (Inl err, r')
      | None \<Rightarrow>
          if i \<in> set (map fst (noteDocs r'))
          then (Inr (), r'\<lparr>noteDocs :=
                  map (\<lambda>d. if fst d = i then (i, foldl setNoteField (snd d) updateData) else d)
                    (noteDocs r')\<rparr>)
          else (Inl (NotFoundError i), r'))"

text \<open>\<^verbatim>\<open>deleteDoc\<close>: removes the document; deleting an absent id succeeds.\<close>

definition deleteNoteDoc :: "env \<Rightarrow> string \<Rightarrow> remote \<Rightarrow> (error + unit) \<times> remote" where
  "deleteNoteDoc e i r =
     (let r' = logCall (DeleteDoc ''notes'' i) r in
      case deleteDocFault e of
        Some err \<Rightarrow> (Inl err, r')
      | None \<Rightarrow> (Inr (), r'\<lparr>noteDocs := filter (\<lambda>d. fst d \<noteq> i) (noteDocs r')\<rparr>))"

text \<open>
  The live query of FileContext.tsx, lines 82 to 88: the documents of the owner in the
  parent folder, ordered by type, then by name (and by id, as the store orders ties).
\<close>

definition typeName :: "fileType \<Rightarrow> string" where
  "typeName t =
     (case t of Document \<Rightarrow> ''document'' | Image \<Rightarrow> ''image''
      | Video \<Rightarrow> ''video'' | Folder \<Rightarrow> ''folder'')"

definition matchesQuery :: "fileQuery \<Rightarrow> fileData \<Rightarrow> bool" where
  "matchesQuery q d \<longleftrightarrow> userId d = owner_q q \<and> parentId d = parent_q q"

definition runFileQuery :: "fileQuery \<Rightarrow> (string \<times> fileData) list \<Rightarrow> (string \<times> fileData) list" where
  "runFileQuery q docs =
     sort_key (\<lambda>d. (typeName (type (snd d)), name (snd d), fst d))
       (filter (\<lambda>d. matchesQuery q (snd d)) docs)"

text \<open>
  The echo of the store through the subscription: the provider, if it holds a
  subscription, is pushed the current result of its query.
\<close>

definition echo :: "fileState \<Rightarrow> remote \<Rightarrow> fileState" where
  "echo s r =
     (case subscription s of
        None \<Rightarrow> s
      | Some q \<Rightarrow> filesOnSnapshot s (runFileQuery q (fileDocs r)))"

section \<open>Write operations of the files provider\<close>

text \<open>The browser's \<^verbatim>\<open>File\<close>: its name, MIME type, size and bytes.\<close>

record upload =
  name_upload :: string
  type_upload :: string
  size_upload :: nat
  bytes_upload :: "nat list"

definition startsWith :: "string \<Rightarrow> string \<Rightarrow> bool" where
  "startsWith s p \<longleftrightarrow> take (length p) s = p"

definition digitChar :: "nat \<Rightarrow> char" where
  "digitChar d = char_of (48 + d)"

text \<open>The decimal digits of a number, as a template string prints \<^verbatim>\<open>Date.now()\<close>.\<close>

fun showNat :: "nat \<Rightarrow> string" where
  "showNat n =
     (if n < 10 then [digitChar n] else showNat (n div 10) @ [digitChar (n mod 10)])"

declare showNat.simps [simp del]

definition fileTypeOf :: "string \<Rightarrow> fileType" where
  "fileTypeOf mime =
     (if startsWith mime ''image/'' then Image
      else if startsWith mime ''video/'' then Video
      else Document)"

text \<open>\<^verbatim>\<open>`users/${currentUser.uid}/${Date.now()}_${file.name}`\<close>\<close>

definition storagePath :: "user \<Rightarrow> nat \<Rightarrow> string \<Rightarrow> string" where
  "storagePath u now fileName = ''users/'' @ uid u @ ''/'' @ showNat now @ ''_'' @ fileName"

text \<open>
  An operation is an \<^verbatim>\<open>async\<close> function: it returns the remote stores as it left them,
  and \<open>Inr ()\<close> when its promise resolves or \<open>Inl err\<close> when it rejects with \<open>err\<close>.
  \<^verbatim>\<open>console.log\<close> and \<^verbatim>\<open>console.error\<close> are left out.

  FileContext.tsx, lines 101 to 146.
\<close>

definition uploadFile ::
  "fileState \<Rightarrow> env \<Rightarrow> upload \<Rightarrow> string option \<Rightarrow> remote \<Rightarrow> (error + unit) \<times> remote" where
  "uploadFile s e file parent r =
     (case currentUser s of
        None \<Rightarrow> (Inr (), r)
      | Some u \<Rightarrow>
          let fileType = fileTypeOf (type_upload file);
              storageRef = storagePath u (dateNow e) (name_upload file)
          in (case uploadBytes e storageRef (bytes_upload file) r of
                (Inl err, r1) \<Rightarrow> (Inl err, r1)
              | (Inr uploaded, r1) \<Rightarrow>
                  (case getDownloadURL e storageRef r1 of
                     (Inl err, r2) \<Rightarrow> (Inl err, r2)
                   | (Inr link, r2) \<Rightarrow>
                       (let now = timestampNow e;
                            fileData =
                              \<lparr>name = name_upload file, type = fileType, url = Some link,
                               content = None, createdAt = now, updatedAt = now,
                               userId = uid u, parentId = orElse parent (currentFolder s),
                               size_file = Some (size_upload file), isStarred = False,
                               isShared = False, sharedWith = None, thumbnailUrl = None\<rparr>
                        in (case addFileDoc e fileData r2 of
                              (Inl err, r3) \<Rightarrow> (Inl err, r3)
                            | (Inr docRef, r3) \<Rightarrow> (Inr (), r3))))))"

text \<open>FileContext.tsx, lines 148 to 176.\<close>

definition createFolder ::
  "fileState \<Rightarrow> env \<Rightarrow> string \<Rightarrow> string option \<Rightarrow> remote \<Rightarrow> (error + unit) \<times> remote" where
  "createFolder s e folderName parent r =
     (case currentUser s of
        None \<Rightarrow> (Inr (), r)
      | Some u \<Rightarrow>
          let now = timestampNow e;
              folderData =
                \<lparr>name = folderName, type = Folder, url = None, content = None,
                 createdAt = now, updatedAt = now, userId = uid u,
                 parentId = orElse parent (currentFolder s), size_file = None,
                 isStarred = False, isShared = False, sharedWith = None,
                 thumbnailUrl = None\<rparr>
          in (case addFileDoc e folderData r of
                (Inl err, r1) \<Rightarrow> (Inl err, r1)
              | (Inr docRef, r1) \<Rightarrow> (Inr (), r1)))"

text \<open>FileContext.tsx, lines 178 to 207.\<close>

definition createDocument ::
  "fileState \<Rightarrow> env \<Rightarrow> string \<Rightarrow> string \<Rightarrow> string option \<Rightarrow> remote
     \<Rightarrow> (error + unit) \<times> remote" where
  "createDocument s e docName body parent r =
     (case currentUser s of
        None \<Rightarrow> (Inr (), r)
      | Some u \<Rightarrow>
          let now = timestampNow e;
              documentData =
                \<lparr>name = docName, type = Document, url = None, content = Some body,
                 createdAt = now, updatedAt = now, userId = uid u,
                 parentId = orElse parent (currentFolder s), size_file = None,
                 isStarred = False, isShared = False, sharedWith = None,
                 thumbnailUrl = None\<rparr>
          in (case addFileDoc e documentData r of
                (Inl err, r1) \<Rightarrow> (Inl err, r1)
              | (Inr docRef, r1) \<Rightarrow> (Inr (), r1)))"

text \<open>FileContext.tsx, lines 209 to 215. The function reads no state of the provider.\<close>

definition updateDocument ::
  "fileState \<Rightarrow> env \<Rightarrow> string \<Rightarrow> string \<Rightarrow> remote \<Rightarrow> (error + unit) \<times> remote" where
  "updateDocument s e i body r =
     updateFileDoc e i [Set_content (Some body), Set_updatedAt (timestampNow e)] r"

text \<open>FileContext.tsx, lines 272 to 280.\<close>

definition toggleStar ::
  "fileState \<Rightarrow> env \<Rightarrow> string \<Rightarrow> remote \<Rightarrow> (error + unit) \<times> remote" where
  "toggleStar s e i r =
     (case find (\<lambda>f. id_file f = i) (files s) of
        None \<Rightarrow> (Inr (), r)
      | Some file \<Rightarrow> updateFileDoc e i [Set_isStarred (\<not> isStarred file)] r)"

text \<open>FileContext.tsx, lines 282 to 290.\<close>

definition shareFile ::
  "fileState \<Rightarrow> env \<Rightarrow> string \<Rightarrow> string \<Rightarrow> remote \<Rightarrow> (error + unit) \<times> remote" where
  "shareFile s e i userEmail r =
     updateFileDoc e i [Set_isShared True, Set_sharedWith (Some [userEmail])] r"

section \<open>Navigation and the subscription effect\<close>

text \<open>FileContext.tsx, lines 242 to 270.\<close>

definition navigateToFolder :: "fileState \<Rightarrow> string option \<Rightarrow> fileState" where
  "navigateToFolder s folderId =
     (let s1 = s\<lparr>currentFolder := folderId\<rparr> in
      case folderId of
        None \<Rightarrow> s1\<lparr>breadcrumbs := [rootCrumb]\<rparr>
      | Some target \<Rightarrow>
          (case find (\<lambda>f. id_file f = target) (files s) of
             None \<Rightarrow> s1
           | Some folder \<Rightarrow>
               let newBreadcrumbs = [rootCrumb];
                   newBreadcrumbs =
                     (if truthy (parentId folder)
                      then (case find (\<lambda>f. Some (id_file f) = parentId folder) (files s) of
                              None \<Rightarrow> newBreadcrumbs
                            | Some parentFolder \<Rightarrow>
                                newBreadcrumbs @
                                  [\<lparr>id_crumb = id_file parentFolder,
                                    name_crumb = name parentFolder\<rparr>])
                      else newBreadcrumbs)
               in s1\<lparr>breadcrumbs :=
                     newBreadcrumbs @ [\<lparr>id_crumb = id_file folder, name_crumb = name folder\<rparr>]\<rparr>))"

text \<open>
  The effect of FileContext.tsx, lines 76 to 99, with dependencies \<^verbatim>\<open>currentUser\<close> and
  \<^verbatim>\<open>currentFolder\<close>. When a dependency changes, the cleanup of the previous run
  (\<^verbatim>\<open>unsubscribe()\<close>) runs first, then the body.
\<close>

definition unsubscribe :: "fileState \<Rightarrow> fileState" where
  "unsubscribe s = s\<lparr>subscription := None\<rparr>"

definition subscriptionEffect :: "fileState \<Rightarrow> fileState" where
  "subscriptionEffect s =
     (case currentUser s of
        None \<Rightarrow> s\<lparr>files := []\<rparr>
      | Some u \<Rightarrow>
          s\<lparr>subscription :=
              Some \<lparr>owner_q = uid u, parent_q = orElse (currentFolder s) None\<rparr>\<rparr>)"

text \<open>The identity source reports a new identity, or none.\<close>

definition identityChanged :: "fileState \<Rightarrow> user option \<Rightarrow> fileState" where
  "identityChanged s u = subscriptionEffect (unsubscribe (s\<lparr>currentUser := u\<rparr>))"

text \<open>A call of \<^verbatim>\<open>navigateToFolder\<close> followed by the effect it triggers.\<close>

definition navigated :: "fileState \<Rightarrow> string option \<Rightarrow> fileState" where
  "navigated s folderId =
     (let s' = navigateToFolder s folderId in
      if currentFolder s' = currentFolder s then s' else subscriptionEffect (unsubscribe s'))"

text \<open>What can happen to the provider, and a run of such events from the initial state.\<close>

datatype fileEvent =
    Pushed "(string \<times> fileData) list"
  | Navigate "string option"
  | Identity "user option"

fun fileStep :: "fileState \<Rightarrow> fileEvent \<Rightarrow> fileState" where
  "fileStep s (Pushed snapshot) = filesOnSnapshot s snapshot"
| "fileStep s (Navigate folderId) = navigated s folderId"
| "fileStep s (Identity u) = identityChanged s u"

section \<open>The notes provider\<close>

text \<open>The effect of NotesContext.tsx, lines 69 to 94, with dependency \<^verbatim>\<open>currentUser\<close>.\<close>

definition identityChanged_notes :: "notesState \<Rightarrow> user option \<Rightarrow> notesState" where
  "identityChanged_notes s u =
     (let s' = s\<lparr>currentUser_notes := u, subscription_notes := None\<rparr> in
      case u of
        None \<Rightarrow> s'\<lparr>notes := []\<rparr>
      | Some v \<Rightarrow> s'\<lparr>subscription_notes := Some (uid v)\<rparr>)"

text \<open>
  NotesContext.tsx, lines 96 to 112. A parameter with a default value is an option;
  \<open>None\<close> is the argument left out.
\<close>

definition addNote ::
  "notesState \<Rightarrow> env \<Rightarrow> string \<Rightarrow> string \<Rightarrow> string option \<Rightarrow> string list option \<Rightarrow> remote
     \<Rightarrow> (error + unit) \<times> remote" where
  "addNote s e newTitle newContent newColor newLabels r =
     (case currentUser_notes s of
        None \<Rightarrow> (Inr (), r)
      | Some u \<Rightarrow>
          let now = timestampNow e;
              noteData =
                \<lparr>title = newTitle, content_note = newContent, createdAt_note = now,
                 updatedAt_note = now, userId_note = uid u,
                 color = (case newColor of None \<Rightarrow> ''#ffffff'' | Some c \<Rightarrow> c),
                 labels = (case newLabels of None \<Rightarrow> [] | Some l \<Rightarrow> l),
                 isPinned = False, aiSummary = None, aiSuggestions = None,
                 viewMode = Grid, checklistItems = []\<rparr>
          in (case addNoteDoc e noteData r of
                (Inl err, r1) \<Rightarrow> (Inl err, r1)
              | (Inr docRef, r1) \<Rightarrow> (Inr (), r1)))"

text \<open>NotesContext.tsx, lines 114 to 134. The function reads no state of the provider.\<close>

definition updateNote ::
  "notesState \<Rightarrow> env \<Rightarrow> string \<Rightarrow> string \<Rightarrow> string \<Rightarrow> string option \<Rightarrow> string list option
     \<Rightarrow> bool option \<Rightarrow> remote \<Rightarrow> (error + unit) \<times> remote" where
  "updateNote s e i newTitle newContent newColor newLabels newPinned r =
     (let updateData =
            [Set_title newTitle, Set_content_note newContent,
             Set_updatedAt_note (timestampNow e)];
          updateData =
            (case newColor of None \<Rightarrow> updateData | Some c \<Rightarrow> updateData @ [Set_color c]);
          updateData =
            (case newLabels of None \<Rightarrow> updateData | Some l \<Rightarrow> updateData @ [Set_labels l]);
          updateData =
            (case newPinned of None \<Rightarrow> updateData | Some p \<Rightarrow> updateData @ [Set_isPinned p])
      in updateNoteDoc e i updateData r)"

text \<open>NotesContext.tsx, lines 136 to 139.\<close>

definition deleteNote :: "notesState \<Rightarrow> env \<Rightarrow> string \<Rightarrow> remote \<Rightarrow> (error + unit) \<times> remote" where
  "deleteNote s e i r = deleteNoteDoc e i r"

text \<open>
  NotesContext.tsx, lines 162 to 164: the body of the function is the comment
  \<^verbatim>\<open>// Implementation needed\<close>.
\<close>

definition addChecklistItem ::
  "notesState \<Rightarrow> string \<Rightarrow> string \<Rightarrow> remote \<Rightarrow> (error + unit) \<times> remote" where
  "addChecklistItem s noteId itemText r = (Inr (), r)"

section \<open>The note editor\<close>

text \<open>
  \<^verbatim>\<open>String.prototype.trim\<close>, on the code units below 256: tab, line feed, vertical tab,
  form feed, carriage return, space and no-break space are removed from both ends.
\<close>

definition isWhiteSpace :: "char \<Rightarrow> bool" where
  "isWhiteSpace c \<longleftrightarrow> of_char c \<in> {9, 10, 11, 12, 13, 32, 160 :: nat}"

definition trim :: "string \<Rightarrow> string" where
  "trim s = rev (dropWhile isWhiteSpace (rev (dropWhile isWhiteSpace s)))"

text \<open>The \<^verbatim>\<open>useState\<close> cells of \<^verbatim>\<open>NoteEditor\<close> that its handlers read, and its prop.\<close>

record editor =
  note_editor :: "noteItem option"
  title_editor :: string
  content_editor :: string
  color_editor :: string
  labels_editor :: "string list"
  isPinned_editor :: bool
  checklistItems_editor :: "checklistItem list"
  newChecklistItem :: string

text \<open>\<^verbatim>\<open>handleAddChecklistItem\<close>; the first argument is what \<^verbatim>\<open>crypto.randomUUID()\<close> returns.\<close>

definition handleAddChecklistItem :: "string \<Rightarrow> editor \<Rightarrow> editor" where
  "handleAddChecklistItem uuid ed =
     (if trim (newChecklistItem ed) \<noteq> []
      then ed\<lparr>checklistItems_editor :=
                checklistItems_editor ed @
                  [\<lparr>id_item = uuid, text = trim (newChecklistItem ed), isCompleted = False\<rparr>],
              newChecklistItem := []\<rparr>
      else ed)"

text \<open>\<^verbatim>\<open>handleSubmit\<close> of the editor, without the closing of the editor.\<close>

definition handleSubmit ::
  "notesState \<Rightarrow> env \<Rightarrow> editor \<Rightarrow> remote \<Rightarrow> (error + unit) \<times> remote" where
  "handleSubmit s e ed r =
     (if trim (title_editor ed) = [] \<or> trim (content_editor ed) = [] then (Inr (), r)
      else
        (case note_editor ed of
           Some n \<Rightarrow>
             updateNote s e (id_note n) (title_editor ed) (content_editor ed)
               (Some (color_editor ed)) (Some (labels_editor ed)) (Some (isPinned_editor ed)) r
         | None \<Rightarrow>
             addNote s e (title_editor ed) (content_editor ed)
               (Some (color_editor ed)) (Some (labels_editor ed)) r))"

text \<open>
  The fields of a note document other than title, content, updatedAt, color, labels
  and isPinned.
\<close>

definition otherFields ::
  "noteData \<Rightarrow> timestamp \<times> string \<times> string option \<times> string list option \<times> viewModeT
     \<times> checklistItem list" where
  "otherFields d =
     (createdAt_note d, userId_note d, aiSummary d, aiSuggestions d, viewMode d,
      checklistItems d)"

text \<open>
  The shape every trail has: the synthetic root entry first, then at most two entries.
\<close>

definition trailShape :: "crumb list \<Rightarrow> bool" where
  "trailShape t \<longleftrightarrow> (\<exists>rest. t = rootCrumb # rest \<and> length rest \<le> 2)"

section \<open>Example data\<close>

definition alice :: user where
  "alice = \<lparr>uid = ''u1''\<rparr>"

definition projects :: fileData where
  "projects =
     \<lparr>name = ''Projects'', type = Folder, url = None, content = None, createdAt = 1000,
      updatedAt = 1000, userId = ''u1'', parentId = None, size_file = None,
      isStarred = False, isShared = False, sharedWith = None, thumbnailUrl = None\<rparr>"

definition report :: fileData where
  "report =
     \<lparr>name = ''report'', type = Document, url = None, content = Some ''draft'',
      createdAt = 2000, updatedAt = 2500, userId = ''u1'', parentId = None,
      size_file = None, isStarred = True, isShared = True,
      sharedWith = Some [''bob@example.org''], thumbnailUrl = None\<rparr>"

definition photo :: upload where
  "photo =
     \<lparr>name_upload = ''photo.png'', type_upload = ''image/png'', size_upload = 3,
      bytes_upload = [137, 80, 78]\<rparr>"

definition groceries :: noteData where
  "groceries =
     \<lparr>title = ''Groceries'', content_note = ''for Friday'', createdAt_note = 3000,
      updatedAt_note = 5000, userId_note = ''u1'', color = ''#ffffff'', labels = [],
      isPinned = False, aiSummary = None, aiSuggestions = None, viewMode = Grid,
      checklistItems = [\<lparr>id_item = ''a'', text = ''milk'', isCompleted = False\<rparr>]\<rparr>"

definition passwords :: noteData where
  "passwords = groceries\<lparr>title := ''Keys'', updatedAt_note := 1000, isPinned := True,
     checklistItems := []\<rparr>"

definition ideas :: noteData where
  "ideas = groceries\<lparr>title := ''Ideas'', updatedAt_note := 9000, checklistItems := []\<rparr>"

definition today :: noteData where
  "today = passwords\<lparr>title := ''Today'', updatedAt_note := 7000\<rparr>"

definition demoRemote :: remote where
  "demoRemote =
     \<lparr>fileDocs = [(''f1'', projects), (''f2'', report)],
      noteDocs = [(''n1'', groceries), (''n2'', passwords), (''n3'', ideas)],
      blobs = [], calls = []\<rparr>"

text \<open>Answers of the stores: every call succeeds; the upload is refused.\<close>

definition quietEnv :: env where
  "quietEnv =
     \<lparr>dateNow = 1700, timestampNow = 1700, uploadBytesFault = None,
      getDownloadURLResult = Inr ''https://storage.example/o/users%2Fu1%2F1700_photo.png'',
      addDocResult = Inr ''f9'', updateDocFault = None, deleteDocFault = None\<rparr>"

definition putFails :: env where
  "putFails = quietEnv\<lparr>uploadBytesFault := Some (StorageError ''storage/unauthorized'')\<rparr>"

text \<open>Alice signed in, at the root, after the first push of her two files.\<close>

definition browsing :: fileState where
  "browsing =
     filesOnSnapshot (identityChanged initialFileState (Some alice))
       [(''f2'', report), (''f1'', projects)]"

text \<open>Alice after she opened the folder Projects.\<close>

definition insideProjects :: fileState where
  "insideProjects = filesOnSnapshot (navigated browsing (Some ''f1'')) []"

definition signedIn_notes :: notesState where
  "signedIn_notes = identityChanged_notes initialNotesState (Some alice)"

text \<open>The editor opened on the note Groceries, with one more item added by hand.\<close>

definition editing :: editor where
  "editing =
     \<lparr>note_editor = Some (toNote (''n1'', groceries)), title_editor = ''Groceries'',
      content_editor = ''for Saturday'', color_editor = ''#fff475'', labels_editor = [''home''],
      isPinned_editor = True,
      checklistItems_editor =
        [\<lparr>id_item = ''a'', text = ''milk'', isCompleted = True\<rparr>,
         \<lparr>id_item = ''b'', text = ''eggs'', isCompleted = False\<rparr>],
      newChecklistItem = []\<rparr>"


section \<open>Properties of the sort\<close>

lemma mset_insertBy: "mset (insertBy cmp x xs) = add_mset x (mset xs)"
  by (induction xs) simp_all

lemma mset_arraySort: "mset (arraySort cmp xs) = mset xs"
  unfolding arraySort_def by (induction xs) (simp_all add: mset_insertBy)

lemma set_insertBy: "set (insertBy cmp x xs) = insert x (set xs)"
  by (induction xs) auto

lemma noteBefore_total: "noteBefore a b \<or> noteBefore b a"
  by (auto simp: noteBefore_def compareNotes_def)

lemma noteBefore_trans: "noteBefore a b \<Longrightarrow> noteBefore b c \<Longrightarrow> noteBefore a c"
  by (auto simp: noteBefore_def compareNotes_def split: if_splits)

lemma sorted_insertBy:
  "sorted_wrt noteBefore xs \<Longrightarrow> sorted_wrt noteBefore (insertBy compareNotes x xs)"
proof (induction xs)
  case Nil
  then show ?case by simp
next
  case (Cons y ys)
  show ?case
  proof (cases "compareNotes x y \<le> 0")
    case True
    then have xy: "noteBefore x y" by (simp add: noteBefore_def)
    have "\<forall>z\<in>set ys. noteBefore x z"
      using Cons.prems xy noteBefore_trans by auto
    with True xy Cons.prems show ?thesis by simp
  next
    case False
    then have yx: "noteBefore y x"
      using noteBefore_total [of x y] by (simp add: noteBefore_def)
    have "sorted_wrt noteBefore (insertBy compareNotes x ys)"
      using Cons by simp
    with False yx Cons.prems show ?thesis by (auto simp: set_insertBy)
  qed
qed

lemma sorted_arraySort: "sorted_wrt noteBefore (arraySort compareNotes xs)"
  unfolding arraySort_def by (induction xs) (simp_all add: sorted_insertBy)

lemma docOfFile_toFileItem: "docOfFile (toFileItem d) = d"
proof (cases d)
  case (Pair i r)
  then show ?thesis
    by (cases r) (simp add: docOfFile_def toFileItem_def fileData.defs fileItem.defs)
qed

lemma docOfNote_toNote: "docOfNote (toNote d) = d"
proof (cases d)
  case (Pair i r)
  then show ?thesis
    by (cases r) (simp add: docOfNote_def toNote_def noteData.defs noteItem.defs)
qed

section \<open>Facts about the example data\<close>

lemma currentUser_browsing: "currentUser browsing = Some alice"
  by (simp add: browsing_def filesOnSnapshot_def identityChanged_def subscriptionEffect_def
      unsubscribe_def)

lemma subscription_browsing:
  "subscription browsing = Some \<lparr>owner_q = ''u1'', parent_q = None\<rparr>"
  by (simp add: browsing_def filesOnSnapshot_def identityChanged_def subscriptionEffect_def
      unsubscribe_def initialFileState_def alice_def orElse_def truthy_def)

lemma files_browsing:
  "files browsing = [toFileItem (''f2'', report), toFileItem (''f1'', projects)]"
  by (simp add: browsing_def filesOnSnapshot_def)

lemma id_file_toFileItem: "id_file (toFileItem d) = fst d"
  by (simp add: toFileItem_def fileData.defs fileItem.defs)

lemma name_toFileItem: "name (toFileItem d) = name (snd d)"
  by (simp add: toFileItem_def fileData.defs)

lemma parentId_toFileItem: "parentId (toFileItem d) = parentId (snd d)"
  by (simp add: toFileItem_def fileData.defs)

lemma isStarred_toFileItem: "isStarred (toFileItem d) = isStarred (snd d)"
  by (simp add: toFileItem_def fileData.defs)

section \<open>What a push leaves in the local collection\<close>

text \<open>
  C2. Whatever the state and whatever pushes came before, immediately after a push the
  local collection of the files engine is the pushed result set, document by document
  and in the pushed order, and the local collection of the notes engine holds exactly the
  documents of the pushed result set, each as often as the push holds it (the notes
  engine reorders them). Nothing of an earlier push or of the earlier state is left.
\<close>

theorem push_replaces_local_collection:
  "map docOfFile (files (foldl filesOnSnapshot s (earlier @ [pushed]))) = pushed \<and>
   mset (map docOfNote (notes (foldl notesOnSnapshot t (earlier' @ [pushed'])))) = mset pushed'"
proof -
  have "map docOfFile (map toFileItem pushed) = pushed"
    by (simp add: comp_def docOfFile_toFileItem)
  moreover have "mset (map docOfNote (arraySort compareNotes (map toNote pushed'))) = mset pushed'"
  proof -
    have "mset (map docOfNote (arraySort compareNotes (map toNote pushed')))
        = image_mset docOfNote (mset (arraySort compareNotes (map toNote pushed')))"
      by simp
    also have "\<dots> = image_mset docOfNote (mset (map toNote pushed'))"
      by (simp only: mset_arraySort)
    also have "\<dots> = mset (map (docOfNote \<circ> toNote) pushed')"
      by (simp add: multiset.map_comp)
    also have "\<dots> = mset pushed'"
      by (simp add: comp_def docOfNote_toNote)
    finally show ?thesis .
  qed
  ultimately show ?thesis
    by (simp add: filesOnSnapshot_def notesOnSnapshot_def)
qed

text \<open>
  C8. After a push to the notes engine, for any two positions \<open>i < j\<close> of the local
  collection: if the later note is pinned then so is the earlier one, and if both have the
  same pinned state then the earlier one was updated no earlier than the later one.
\<close>

theorem notes_pinned_first_then_recent:
  assumes "ns = notes (notesOnSnapshot s pushed)" and "i < j" and "j < length ns"
  shows "(isPinned (ns ! j) \<longrightarrow> isPinned (ns ! i)) \<and>
         (isPinned (ns ! i) = isPinned (ns ! j) \<longrightarrow>
            toMillis (updatedAt_note (ns ! j)) \<le> toMillis (updatedAt_note (ns ! i)))"
proof -
  have "sorted_wrt noteBefore ns"
    using assms(1) by (simp add: notesOnSnapshot_def sorted_arraySort)
  then have "noteBefore (ns ! i) (ns ! j)"
    using assms(2,3) by (simp add: sorted_wrt_iff_nth_less)
  then show ?thesis
    by (auto simp: noteBefore_def compareNotes_def split: if_splits)
qed


theorem notes_pinned_first_then_recent_witness:
  "notes (notesOnSnapshot signedIn_notes (noteDocs demoRemote @ [(''n4'', today)])) =
     [toNote (''n4'', today), toNote (''n2'', passwords), toNote (''n3'', ideas),
      toNote (''n1'', groceries)] \<and>
   isPinned (toNote (''n2'', passwords)) \<and> isPinned (toNote (''n4'', today)) \<and>
   toMillis (updatedAt_note (toNote (''n2'', passwords)))
     \<le> toMillis (updatedAt_note (toNote (''n4'', today)))"
proof -
  have sorted:
    "notes (notesOnSnapshot signedIn_notes (noteDocs demoRemote @ [(''n4'', today)])) =
       [toNote (''n4'', today), toNote (''n2'', passwords), toNote (''n3'', ideas),
        toNote (''n1'', groceries)]"
    by (simp add: notesOnSnapshot_def arraySort_def compareNotes_def toMillis_def toNote_def
        noteData.defs noteItem.defs demoRemote_def groceries_def passwords_def ideas_def
        today_def)
  have pinned: "isPinned (toNote (''n2'', passwords))"
    by (simp add: toNote_def noteData.defs passwords_def)
  have len: "1 < length
      (notes (notesOnSnapshot signedIn_notes (noteDocs demoRemote @ [(''n4'', today)])))"
    by (simp only: sorted) simp
  have lt: "(0::nat) < 1"
    by simp
  show ?thesis
    using notes_pinned_first_then_recent [OF refl lt len] sorted pinned by simp
qed
section \<open>Upload: blob first, metadata second\<close>

text \<open>
  C1. For an upload by a signed-in user, the calls that \<^verbatim>\<open>uploadFile\<close> makes are a prefix
  of: put the bytes, ask for the URL, insert the record, in this order. A record is
  inserted only after the put succeeded. If the put fails, the operation rejects with the
  error of the blob store, no record is inserted, and the put is the only call made.
\<close>

theorem uploadFile_blob_before_metadata:
  assumes "currentUser s = Some u"
    and "p = storagePath u (dateNow e) (name_upload file)"
    and "uploadFile s e file parent r = (res, r')"
  shows "(\<exists>k. calls r' = calls r @ take k [UploadBytes p, GetDownloadURL p, AddDoc ''files'']) \<and>
         (fileDocs r' \<noteq> fileDocs r \<longrightarrow>
            uploadBytesFault e = None \<and> (p, bytes_upload file) \<in> set (blobs r') \<and>
            calls r' = calls r @ [UploadBytes p, GetDownloadURL p, AddDoc ''files'']) \<and>
         (uploadBytesFault e = Some err \<longrightarrow>
            res = Inl err \<and> fileDocs r' = fileDocs r \<and> calls r' = calls r @ [UploadBytes p])"
proof (cases "uploadBytesFault e")
  case None
  show ?thesis
  proof (cases "getDownloadURLResult e")
    case (Inl a)
    with None assms
    have "calls r' = calls r @ take 2 [UploadBytes p, GetDownloadURL p, AddDoc ''files'']"
      and "fileDocs r' = fileDocs r"
      by (auto simp: uploadFile_def uploadBytes_def getDownloadURL_def logCall_def Let_def)
    with None show ?thesis
      by (intro conjI) (auto intro!: exI[of _ "2::nat"])
  next
    case (Inr link)
    show ?thesis
    proof (cases "addDocResult e")
      case (Inl a)
      with None Inr assms
      have "calls r' = calls r @ take 3 [UploadBytes p, GetDownloadURL p, AddDoc ''files'']"
        and "fileDocs r' = fileDocs r"
        by (auto simp: uploadFile_def uploadBytes_def getDownloadURL_def addFileDoc_def
            logCall_def Let_def)
      with None show ?thesis
        by (intro conjI) (auto intro!: exI[of _ "3::nat"])
    next
      case (Inr newId)
      with None \<open>getDownloadURLResult e = Inr link\<close> assms
      have "calls r' = calls r @ take 3 [UploadBytes p, GetDownloadURL p, AddDoc ''files'']"
        and "(p, bytes_upload file) \<in> set (blobs r')"
        by (auto simp: uploadFile_def uploadBytes_def getDownloadURL_def addFileDoc_def
            logCall_def Let_def)
      with None show ?thesis
        by (intro conjI) (auto intro!: exI[of _ "3::nat"])
    qed
  qed
next
  case (Some a)
  with assms
  have "calls r' = calls r @ take 1 [UploadBytes p, GetDownloadURL p, AddDoc ''files'']"
    and "fileDocs r' = fileDocs r" and "res = Inl a"
    by (auto simp: uploadFile_def uploadBytes_def logCall_def Let_def)
  with Some show ?thesis
    by (intro conjI) (auto intro!: exI[of _ "1::nat"])
qed

theorem uploadFile_blob_before_metadata_witness:
  "currentUser browsing = Some alice \<and>
   uploadBytesFault putFails = Some (StorageError ''storage/unauthorized'') \<and>
   fst (uploadFile browsing putFails photo None demoRemote) =
     Inl (StorageError ''storage/unauthorized'') \<and>
   fileDocs (snd (uploadFile browsing putFails photo None demoRemote)) = fileDocs demoRemote \<and>
   calls (snd (uploadFile browsing putFails photo None demoRemote)) =
     calls demoRemote @ [UploadBytes (storagePath alice (dateNow putFails) (name_upload photo))] \<and>
   fileDocs (snd (uploadFile browsing quietEnv photo None demoRemote)) \<noteq> fileDocs demoRemote \<and>
   calls (snd (uploadFile browsing quietEnv photo None demoRemote)) =
     calls demoRemote @
       [UploadBytes (storagePath alice (dateNow quietEnv) (name_upload photo)),
        GetDownloadURL (storagePath alice (dateNow quietEnv) (name_upload photo)),
        AddDoc ''files'']"
proof -
  have fault: "uploadBytesFault putFails = Some (StorageError ''storage/unauthorized'')"
    by (simp add: putFails_def)
  have inserted:
    "fileDocs (snd (uploadFile browsing quietEnv photo None demoRemote)) \<noteq> fileDocs demoRemote"
    by (simp add: uploadFile_def currentUser_browsing uploadBytes_def getDownloadURL_def
        addFileDoc_def logCall_def quietEnv_def demoRemote_def Let_def)
  show ?thesis
    using uploadFile_blob_before_metadata
      [OF currentUser_browsing refl prod.collapse [symmetric],
        of putFails photo None demoRemote "StorageError ''storage/unauthorized''"]
      uploadFile_blob_before_metadata
      [OF currentUser_browsing refl prod.collapse [symmetric],
        of quietEnv photo None demoRemote "StorageError ''storage/unauthorized''"]
      fault inserted currentUser_browsing
    by simp
qed

section \<open>Writes without an identity\<close>

text \<open>
  Without an identity \<^verbatim>\<open>uploadFile\<close> does not reject: its promise resolves. And
  \<^verbatim>\<open>updateDocument\<close>, which has no check of the identity, calls the record store.
\<close>

theorem write_without_identity_counterexample:
  "currentUser initialFileState = None \<and>
   uploadFile initialFileState quietEnv photo None demoRemote = (Inr (), demoRemote) \<and>
   calls (snd (updateDocument initialFileState quietEnv ''f2'' ''final'' demoRemote)) =
     [UpdateDoc ''files'' ''f2'']"
  by (simp add: initialFileState_def uploadFile_def updateDocument_def updateFileDoc_def
      logCall_def demoRemote_def quietEnv_def)

text \<open>
  C3, as the code has it. The four operations that check the identity
  (\<^verbatim>\<open>uploadFile\<close>, \<^verbatim>\<open>createFolder\<close>, \<^verbatim>\<open>createDocument\<close>, \<^verbatim>\<open>addNote\<close>) return at once
  when there is none: the promise resolves, no remote call is made and the stores are
  left as they were.
\<close>

theorem guarded_writes_resolve_without_identity:
  assumes "currentUser s = None" and "currentUser_notes t = None"
  shows "uploadFile s e file parent r = (Inr (), r) \<and>
         createFolder s e folderName parent r = (Inr (), r) \<and>
         createDocument s e docName body parent r = (Inr (), r) \<and>
         addNote t e newTitle newContent newColor newLabels r = (Inr (), r)"
  using assms by (simp add: uploadFile_def createFolder_def createDocument_def addNote_def)

theorem guarded_writes_resolve_without_identity_witness:
  "currentUser initialFileState = None \<and> currentUser_notes initialNotesState = None \<and>
   uploadFile initialFileState putFails photo None demoRemote = (Inr (), demoRemote) \<and>
   createFolder initialFileState quietEnv ''Projects'' None demoRemote = (Inr (), demoRemote) \<and>
   createDocument initialFileState quietEnv ''report'' ''draft'' None demoRemote =
     (Inr (), demoRemote) \<and>
   addNote initialNotesState quietEnv ''Ideas'' ''none yet'' None None demoRemote =
     (Inr (), demoRemote)"
proof -
  have files_none: "currentUser initialFileState = None"
    by (simp add: initialFileState_def)
  have notes_none: "currentUser_notes initialNotesState = None"
    by (simp add: initialNotesState_def)
  show ?thesis
    using files_none notes_none
      guarded_writes_resolve_without_identity [OF files_none notes_none, of putFails photo None demoRemote]
      guarded_writes_resolve_without_identity [OF files_none notes_none, of quietEnv _ None demoRemote]
    by simp
qed

section \<open>Sharing\<close>

text \<open>
  The report is shared with Bob. After it is shared with Carol, its list holds Carol
  alone, not Bob and then Carol.
\<close>

theorem shareFile_append_counterexample:
  "map (sharedWith \<circ> snd) (fileDocs demoRemote) = [None, Some [''bob@example.org'']] \<and>
   map (sharedWith \<circ> snd)
     (fileDocs (snd (shareFile browsing quietEnv ''f2'' ''carol@example.org'' demoRemote))) =
     [None, Some [''carol@example.org'']]"
  by (simp add: shareFile_def updateFileDoc_def logCall_def demoRemote_def quietEnv_def
      projects_def report_def)

text \<open>
  C4, as the code has it. When the record store holds the file and accepts the update,
  \<^verbatim>\<open>shareFile\<close> resolves, and the document of the file has \<open>isShared\<close> true and the
  one-element list of the recipient as \<open>sharedWith\<close>, whatever the list was before; its
  other fields and the other documents are as before.
\<close>

theorem shareFile_replaces_sharedWith:
  assumes "updateDocFault e = None" and "i \<in> fst ` set (fileDocs r)"
  shows "fst (shareFile s e i recipient r) = Inr () \<and>
         fileDocs (snd (shareFile s e i recipient r)) =
           map (\<lambda>d. if fst d = i
                     then (i, (snd d)\<lparr>isShared := True, sharedWith := Some [recipient]\<rparr>)
                     else d) (fileDocs r)"
  using assms by (simp add: shareFile_def updateFileDoc_def logCall_def)

theorem shareFile_replaces_sharedWith_witness:
  "updateDocFault quietEnv = None \<and> ''f1'' \<in> fst ` set (fileDocs demoRemote) \<and>
   fst (shareFile browsing quietEnv ''f1'' ''carol@example.org'' demoRemote) = Inr () \<and>
   fileDocs (snd (shareFile browsing quietEnv ''f1'' ''carol@example.org'' demoRemote)) =
     [(''f1'', projects\<lparr>isShared := True, sharedWith := Some [''carol@example.org'']\<rparr>),
      (''f2'', report)]"
proof -
  have quiet: "updateDocFault quietEnv = None"
    by (simp add: quietEnv_def)
  have held: "''f1'' \<in> fst ` set (fileDocs demoRemote)"
    by (simp add: demoRemote_def)
  show ?thesis
    using quiet held
      shareFile_replaces_sharedWith [OF quiet held, of browsing "''carol@example.org''"]
    by (simp add: demoRemote_def)
qed

section \<open>Sign-out\<close>

text \<open>
  Alice is inside the folder Projects when the identity becomes none: the current
  folder and the trail stay where they were and do not return to their initial values.
\<close>

theorem identity_none_counterexample:
  "currentFolder (identityChanged insideProjects None) = Some ''f1'' \<and>
   breadcrumbs (identityChanged insideProjects None) =
     [rootCrumb, \<lparr>id_crumb = ''f1'', name_crumb = ''Projects''\<rparr>] \<and>
   currentFolder initialFileState = None \<and> breadcrumbs initialFileState = [rootCrumb]"
  by (simp add: insideProjects_def navigated_def navigateToFolder_def browsing_def
      identityChanged_def subscriptionEffect_def unsubscribe_def filesOnSnapshot_def
      initialFileState_def toFileItem_def fileData.defs fileItem.defs projects_def report_def
      truthy_def Let_def)

text \<open>
  C7, as the code has it. When the identity becomes none, the subscriptions of both
  providers are released and their local collections become empty; the current folder and
  the breadcrumb trail keep the values they had.
\<close>

theorem identity_none_clears_collections_only:
  "files (identityChanged s None) = [] \<and>
   subscription (identityChanged s None) = None \<and>
   currentUser (identityChanged s None) = None \<and>
   notes (identityChanged_notes t None) = [] \<and>
   subscription_notes (identityChanged_notes t None) = None \<and>
   currentFolder (identityChanged s None) = currentFolder s \<and>
   breadcrumbs (identityChanged s None) = breadcrumbs s"
  by (simp add: identityChanged_def subscriptionEffect_def unsubscribe_def
      identityChanged_notes_def)

section \<open>Checklist items\<close>

text \<open>
  The editor's own handler appends, to the editor's local list, one item with the given
  fresh id, the trimmed text and \<open>isCompleted\<close> false, and does nothing for white space.
\<close>

lemma handleAddChecklistItem_appends:
  "checklistItems_editor (handleAddChecklistItem uuid ed) =
     (if trim (newChecklistItem ed) = [] then checklistItems_editor ed
      else checklistItems_editor ed @
             [\<lparr>id_item = uuid, text = trim (newChecklistItem ed), isCompleted = False\<rparr>])"
  by (simp add: handleAddChecklistItem_def)

text \<open>
  C6. \<^verbatim>\<open>addChecklistItem\<close> has no body: called with a text, or with white space only, it
  resolves and the note keeps the checklist it had, here the one item of the note
  Groceries.
\<close>

theorem addChecklistItem_does_nothing:
  "addChecklistItem signedIn_notes ''n1'' ''eggs'' demoRemote = (Inr (), demoRemote) \<and>
   addChecklistItem signedIn_notes ''n1'' ''   '' demoRemote = (Inr (), demoRemote) \<and>
   map (length \<circ> checklistItems \<circ> snd) (noteDocs demoRemote) = [1, 0, 0]"
  by (simp add: addChecklistItem_def demoRemote_def groceries_def passwords_def ideas_def)

section \<open>Breadcrumbs\<close>

lemma navigateToFolder_root:
  "breadcrumbs (navigateToFolder s None) = [rootCrumb] \<and>
   currentFolder (navigateToFolder s None) = None"
  by (simp add: navigateToFolder_def)

lemma navigateToFolder_currentFolder:
  "currentFolder (navigateToFolder s folderId) = folderId"
  by (simp add: navigateToFolder_def Let_def split: option.splits)

lemma navigateToFolder_found:
  assumes "find (\<lambda>f. id_file f = target) (files s) = Some folder"
  shows "\<exists>middle. breadcrumbs (navigateToFolder s (Some target)) =
           rootCrumb # middle @ [\<lparr>id_crumb = target, name_crumb = name folder\<rparr>] \<and>
           length middle \<le> 1 \<and> (\<not> truthy (parentId folder) \<longrightarrow> middle = [])"
proof -
  have idf: "id_file folder = target"
    using assms by (auto simp: find_Some_iff)
  show ?thesis
  proof (cases "truthy (parentId folder)")
    case False
    with assms idf have "breadcrumbs (navigateToFolder s (Some target)) =
        rootCrumb # [] @ [\<lparr>id_crumb = target, name_crumb = name folder\<rparr>]"
      by (simp add: navigateToFolder_def Let_def)
    then show ?thesis using False by (intro exI[of _ "[]"]) simp
  next
    case True
    show ?thesis
    proof (cases "find (\<lambda>f. Some (id_file f) = parentId folder) (files s)")
      case None
      with assms idf True have "breadcrumbs (navigateToFolder s (Some target)) =
          rootCrumb # [] @ [\<lparr>id_crumb = target, name_crumb = name folder\<rparr>]"
        by (simp add: navigateToFolder_def Let_def)
      then show ?thesis using True by (intro exI[of _ "[]"]) simp
    next
      case (Some parentFolder)
      with assms idf True have "breadcrumbs (navigateToFolder s (Some target)) =
          rootCrumb # [\<lparr>id_crumb = id_file parentFolder, name_crumb = name parentFolder\<rparr>]
            @ [\<lparr>id_crumb = target, name_crumb = name folder\<rparr>]"
        by (simp add: navigateToFolder_def Let_def)
      then show ?thesis using True
        by (intro exI[of _ "[\<lparr>id_crumb = id_file parentFolder, name_crumb = name parentFolder\<rparr>]"]) simp
    qed
  qed
qed

lemma navigateToFolder_absent:
  "find (\<lambda>f. id_file f = target) (files s) = None \<Longrightarrow>
   breadcrumbs (navigateToFolder s (Some target)) = breadcrumbs s"
  by (simp add: navigateToFolder_def Let_def)

lemma trailShape_navigateToFolder:
  assumes "trailShape (breadcrumbs s)"
  shows "trailShape (breadcrumbs (navigateToFolder s folderId))"
proof (cases folderId)
  case None
  then show ?thesis by (simp add: navigateToFolder_root trailShape_def)
next
  case (Some target)
  show ?thesis
  proof (cases "find (\<lambda>f. id_file f = target) (files s)")
    case None
    with Some assms show ?thesis by (simp add: navigateToFolder_absent)
  next
    case (Some folder)
    from navigateToFolder_found [OF this] obtain middle where
      "breadcrumbs (navigateToFolder s (Some target)) =
         rootCrumb # middle @ [\<lparr>id_crumb = target, name_crumb = name folder\<rparr>]"
      "length middle \<le> 1" by blast
    with \<open>folderId = Some target\<close> show ?thesis by (simp add: trailShape_def)
  qed
qed

lemma breadcrumbs_subscriptionEffect:
  "breadcrumbs (subscriptionEffect s) = breadcrumbs s"
  by (simp add: subscriptionEffect_def split: option.splits)

lemma trailShape_fileStep:
  "trailShape (breadcrumbs s) \<Longrightarrow> trailShape (breadcrumbs (fileStep s ev))"
proof (cases ev)
  case (Pushed snapshot)
  assume "trailShape (breadcrumbs s)"
  with Pushed show ?thesis by (simp add: filesOnSnapshot_def)
next
  case (Navigate folderId)
  assume "trailShape (breadcrumbs s)"
  then have "trailShape (breadcrumbs (navigateToFolder s folderId))"
    by (rule trailShape_navigateToFolder)
  with Navigate show ?thesis
    by (simp add: navigated_def Let_def breadcrumbs_subscriptionEffect unsubscribe_def)
next
  case (Identity u)
  assume "trailShape (breadcrumbs s)"
  with Identity show ?thesis
    by (simp add: identityChanged_def breadcrumbs_subscriptionEffect unsubscribe_def)
qed

lemma trailShape_run:
  "trailShape (breadcrumbs s) \<Longrightarrow> trailShape (breadcrumbs (foldl fileStep s evs))"
  by (induction evs arbitrary: s) (simp_all add: trailShape_fileStep)

text \<open>
  Alice, at the root, navigates to a folder that is not in the loaded collection: the
  current folder becomes that folder, while the trail stays the root alone and so does
  not end with the current folder.
\<close>

theorem navigateToFolder_unknown_counterexample:
  "currentFolder (navigateToFolder browsing (Some ''f7'')) = Some ''f7'' \<and>
   breadcrumbs (navigateToFolder browsing (Some ''f7'')) = [rootCrumb]"
  by (simp add: navigateToFolder_def files_browsing id_file_toFileItem browsing_def
      filesOnSnapshot_def identityChanged_def subscriptionEffect_def unsubscribe_def
      initialFileState_def)

text \<open>
  C5, as the code has it. After \<^verbatim>\<open>navigateToFolder(null)\<close> the trail is the root entry
  alone. After \<^verbatim>\<open>navigateToFolder(F)\<close> the current folder is \<open>F\<close>; if \<open>F\<close> is found in the
  loaded collection, the trail is the root entry, at most one entry between, and the entry
  of \<open>F\<close>, with nothing between when \<open>F\<close> has no parent; if \<open>F\<close> is not found there, the
  trail is left as it was. In every state that events lead to from the initial state the
  trail starts with the root entry and has at most two more entries.
\<close>

theorem navigateToFolder_trail:
  "breadcrumbs (navigateToFolder s None) = [rootCrumb] \<and>
   currentFolder (navigateToFolder s folderId) = folderId \<and>
   (find (\<lambda>f. id_file f = target) (files s) = Some folder \<longrightarrow>
      (\<exists>middle. breadcrumbs (navigateToFolder s (Some target)) =
           rootCrumb # middle @ [\<lparr>id_crumb = target, name_crumb = name folder\<rparr>] \<and>
           length middle \<le> 1 \<and> (\<not> truthy (parentId folder) \<longrightarrow> middle = []))) \<and>
   (find (\<lambda>f. id_file f = target) (files s) = None \<longrightarrow>
      breadcrumbs (navigateToFolder s (Some target)) = breadcrumbs s) \<and>
   trailShape (breadcrumbs (foldl fileStep initialFileState evs))"
proof -
  have "trailShape (breadcrumbs initialFileState)"
    by (simp add: trailShape_def initialFileState_def)
  then have "trailShape (breadcrumbs (foldl fileStep initialFileState evs))"
    by (rule trailShape_run)
  then show ?thesis
    using navigateToFolder_found [of target s folder] navigateToFolder_absent [of target s]
    by (simp add: navigateToFolder_root navigateToFolder_currentFolder)
qed

theorem navigateToFolder_trail_witness:
  "find (\<lambda>f. id_file f = ''f1'') (files browsing) = Some (toFileItem (''f1'', projects)) \<and>
   currentFolder (navigateToFolder browsing (Some ''f1'')) = Some ''f1'' \<and>
   breadcrumbs (navigateToFolder browsing (Some ''f1'')) =
     [rootCrumb, \<lparr>id_crumb = ''f1'', name_crumb = ''Projects''\<rparr>] \<and>
   find (\<lambda>f. id_file f = ''f7'') (files browsing) = None \<and>
   breadcrumbs (navigateToFolder browsing (Some ''f7'')) = breadcrumbs browsing"
proof -
  have found: "find (\<lambda>f. id_file f = ''f1'') (files browsing) = Some (toFileItem (''f1'', projects))"
    by (simp add: files_browsing id_file_toFileItem)
  have absent: "find (\<lambda>f. id_file f = ''f7'') (files browsing) = None"
    by (simp add: files_browsing id_file_toFileItem)
  have orphan: "\<not> truthy (parentId (toFileItem (''f1'', projects)))"
    by (simp add: parentId_toFileItem projects_def truthy_def)
  have named: "name (toFileItem (''f1'', projects)) = ''Projects''"
    by (simp add: name_toFileItem projects_def)
  show ?thesis
    using navigateToFolder_trail [of browsing "Some ''f1''" "''f1''" "toFileItem (''f1'', projects)"]
      navigateToFolder_trail [of browsing "Some ''f7''" "''f7''"]
      found absent orphan named
    by auto
qed

section \<open>Starring\<close>

lemma find_by_id:
  "distinct (map fst xs) \<Longrightarrow> (i, d) \<in> set xs \<Longrightarrow> find (\<lambda>x. fst x = i) xs = Some (i, d)"
proof (induction xs)
  case Nil
  then show ?case by simp
next
  case (Cons x xs)
  then show ?case by (cases x) (auto simp: image_iff)
qed

lemma find_toFileItem:
  "find (\<lambda>f. id_file f = i) (map toFileItem xs) = map_option toFileItem (find (\<lambda>x. fst x = i) xs)"
  by (induction xs) (simp_all add: toFileItem_def fileData.defs fileItem.defs)

lemma distinct_runFileQuery:
  assumes "distinct (map fst docs)"
  shows "distinct (map fst (runFileQuery q docs))"
proof -
  let ?kept = "filter (\<lambda>d. matchesQuery q (snd d)) docs"
  have "distinct (map fst ?kept)"
    using assms by (rule distinct_map_filter)
  moreover have "mset (map fst (runFileQuery q docs)) = mset (map fst ?kept)"
    by (simp add: runFileQuery_def)
  ultimately show ?thesis
    using mset_eq_imp_distinct_iff by blast
qed

lemma set_runFileQuery:
  "set (runFileQuery q docs) = {d \<in> set docs. matchesQuery q (snd d)}"
  by (simp add: runFileQuery_def)

lemma find_echo:
  assumes "subscription s = Some q" and "distinct (map fst (fileDocs r))"
    and "(i, d) \<in> set (fileDocs r)" and "matchesQuery q d"
  shows "find (\<lambda>f. id_file f = i) (files (echo s r)) = Some (toFileItem (i, d))"
proof -
  have "(i, d) \<in> set (runFileQuery q (fileDocs r))"
    using assms(3,4) by (simp add: set_runFileQuery)
  with distinct_runFileQuery [OF assms(2)]
  have "find (\<lambda>x. fst x = i) (runFileQuery q (fileDocs r)) = Some (i, d)"
    by (rule find_by_id)
  with assms(1) show ?thesis
    by (simp add: echo_def filesOnSnapshot_def find_toFileItem)
qed

lemma subscription_echo: "subscription (echo s r) = subscription s"
  by (simp add: echo_def filesOnSnapshot_def split: option.splits)

lemma toggleStar_found:
  assumes "find (\<lambda>f. id_file f = i) (files s) = Some f" and "updateDocFault e = None"
    and "(i, d) \<in> set (fileDocs r)"
  shows "fst (toggleStar s e i r) = Inr ()"
    and "fileDocs (snd (toggleStar s e i r)) =
           map (\<lambda>x. if fst x = i then (i, (snd x)\<lparr>isStarred := \<not> isStarred f\<rparr>) else x) (fileDocs r)"
proof -
  have "i \<in> set (map fst (fileDocs r))"
    using assms(3) by force
  then show "fst (toggleStar s e i r) = Inr ()"
    and "fileDocs (snd (toggleStar s e i r)) =
           map (\<lambda>x. if fst x = i then (i, (snd x)\<lparr>isStarred := \<not> isStarred f\<rparr>) else x) (fileDocs r)"
    using assms(1,2) by (simp_all add: toggleStar_def updateFileDoc_def logCall_def Let_def)
qed

lemma starred_docs:
  assumes "(i, d) \<in> set docs"
  shows "(i, d\<lparr>isStarred := v\<rparr>) \<in>
           set (map (\<lambda>x. if fst x = i then (i, (snd x)\<lparr>isStarred := v\<rparr>) else x) docs)"
    and "map fst (map (\<lambda>x. if fst x = i then (i, (snd x)\<lparr>isStarred := v\<rparr>) else x) docs) = map fst docs"
  using assms by (auto simp: image_iff intro!: bexI[of _ "(i, d)"])

text \<open>
  C9. Let the provider hold a subscription, let the record store hold the file under a
  single id and let the file be visible to the subscription; let the local collection
  hold the file, and let the store accept both updates. Then after \<^verbatim>\<open>toggleStar\<close>, the
  echo of the store, \<^verbatim>\<open>toggleStar\<close> again and the echo again, the flag of the file is
  the negation of the original after the first round and the original after the second,
  in the local collection and in the store.
\<close>

theorem toggleStar_twice:
  assumes sub: "subscription s = Some q"
    and dist: "distinct (map fst (fileDocs r))"
    and doc: "(i, d) \<in> set (fileDocs r)"
    and vis: "matchesQuery q d"
    and loc: "find (\<lambda>f. id_file f = i) (files s) = Some f"
    and ok: "updateDocFault e1 = None" "updateDocFault e2 = None"
    and r1: "r1 = snd (toggleStar s e1 i r)"
    and s1: "s1 = echo s r1"
    and r2: "r2 = snd (toggleStar s1 e2 i r1)"
    and s2: "s2 = echo s1 r2"
  shows "map_option isStarred (find (\<lambda>f. id_file f = i) (files s1)) = Some (\<not> isStarred f) \<and>
         map_option isStarred (find (\<lambda>f. id_file f = i) (files s2)) = Some (isStarred f) \<and>
         map_option isStarred (map_of (fileDocs r2) i) = Some (isStarred f) \<and>
         fst (toggleStar s e1 i r) = Inr () \<and> fst (toggleStar s1 e2 i r1) = Inr ()"
proof -
  let ?d1 = "d\<lparr>isStarred := \<not> isStarred f\<rparr>"
  let ?d2 = "d\<lparr>isStarred := isStarred f\<rparr>"
  have docs1: "fileDocs r1 =
      map (\<lambda>x. if fst x = i then (i, (snd x)\<lparr>isStarred := \<not> isStarred f\<rparr>) else x) (fileDocs r)"
    and res1: "fst (toggleStar s e1 i r) = Inr ()"
    unfolding r1 using toggleStar_found [OF loc ok(1) doc] by simp_all
  have doc1: "(i, ?d1) \<in> set (fileDocs r1)" and dist1: "distinct (map fst (fileDocs r1))"
    unfolding docs1 using starred_docs(1) [OF doc] dist
    by (simp_all only: starred_docs(2) [OF doc])
  have vis1: "matchesQuery q ?d1"
    using vis by (simp add: matchesQuery_def)
  have loc1: "find (\<lambda>f. id_file f = i) (files s1) = Some (toFileItem (i, ?d1))"
    unfolding s1 using sub dist1 doc1 vis1 by (rule find_echo)
  have star1: "isStarred (toFileItem (i, ?d1)) = (\<not> isStarred f)"
    by (simp add: toFileItem_def fileData.defs)
  have docs2: "fileDocs r2 =
      map (\<lambda>x. if fst x = i then (i, (snd x)\<lparr>isStarred := isStarred f\<rparr>) else x) (fileDocs r1)"
    and res2: "fst (toggleStar s1 e2 i r1) = Inr ()"
    unfolding r2 using toggleStar_found [OF loc1 ok(2) doc1] star1 by simp_all
  have twice: "?d1\<lparr>isStarred := isStarred f\<rparr> = ?d2"
    by simp
  have doc2: "(i, ?d2) \<in> set (fileDocs r2)"
    unfolding docs2 using starred_docs(1) [OF doc1, of "isStarred f"] by (simp only: twice)
  have dist2: "distinct (map fst (fileDocs r2))"
    unfolding docs2 using dist1 by (simp only: starred_docs(2) [OF doc1])
  have vis2: "matchesQuery q ?d2"
    using vis by (simp add: matchesQuery_def)
  have sub1: "subscription s1 = Some q"
    unfolding s1 using sub by (simp add: subscription_echo)
  have loc2: "find (\<lambda>f. id_file f = i) (files s2) = Some (toFileItem (i, ?d2))"
    unfolding s2 using sub1 dist2 doc2 vis2 by (rule find_echo)
  have star2: "isStarred (toFileItem (i, ?d2)) = isStarred f"
    by (simp add: toFileItem_def fileData.defs)
  have "map_of (fileDocs r2) i = Some ?d2"
    using dist2 doc2 by simp
  with loc1 loc2 star1 star2 res1 res2 show ?thesis by simp
qed

theorem toggleStar_twice_witness:
  "find (\<lambda>f. id_file f = ''f2'') (files browsing) = Some (toFileItem (''f2'', report)) \<and>
   isStarred (toFileItem (''f2'', report)) \<and>
   map_option isStarred
     (find (\<lambda>f. id_file f = ''f2'')
        (files (echo browsing (snd (toggleStar browsing quietEnv ''f2'' demoRemote))))) =
     Some False \<and>
   map_option isStarred
     (map_of
        (fileDocs
           (snd (toggleStar (echo browsing (snd (toggleStar browsing quietEnv ''f2'' demoRemote)))
                   quietEnv ''f2'' (snd (toggleStar browsing quietEnv ''f2'' demoRemote)))))
        ''f2'') =
     Some True"
proof -
  have dist: "distinct (map fst (fileDocs demoRemote))"
    by (simp add: demoRemote_def)
  have doc: "(''f2'', report) \<in> set (fileDocs demoRemote)"
    by (simp add: demoRemote_def)
  have vis: "matchesQuery \<lparr>owner_q = ''u1'', parent_q = None\<rparr> report"
    by (simp add: matchesQuery_def report_def)
  have loc: "find (\<lambda>f. id_file f = ''f2'') (files browsing) = Some (toFileItem (''f2'', report))"
    by (simp add: files_browsing id_file_toFileItem)
  have quiet: "updateDocFault quietEnv = None"
    by (simp add: quietEnv_def)
  have star: "isStarred (toFileItem (''f2'', report))"
    by (simp add: isStarred_toFileItem report_def)
  show ?thesis
    using toggleStar_twice
      [OF subscription_browsing dist doc vis loc quiet quiet refl refl refl refl]
      loc star
    by simp
qed

section \<open>Updating a note\<close>

lemma updateNote_written:
  "foldl setNoteField d
     (let updateData = [Set_title newTitle, Set_content_note newContent, Set_updatedAt_note now];
          updateData = (case newColor of None \<Rightarrow> updateData | Some c \<Rightarrow> updateData @ [Set_color c]);
          updateData = (case newLabels of None \<Rightarrow> updateData | Some l \<Rightarrow> updateData @ [Set_labels l]);
          updateData = (case newPinned of None \<Rightarrow> updateData | Some p \<Rightarrow> updateData @ [Set_isPinned p])
      in updateData) =
   d\<lparr>title := newTitle, content_note := newContent, updatedAt_note := now,
     color := (case newColor of None \<Rightarrow> color d | Some c \<Rightarrow> c),
     labels := (case newLabels of None \<Rightarrow> labels d | Some l \<Rightarrow> l),
     isPinned := (case newPinned of None \<Rightarrow> isPinned d | Some p \<Rightarrow> p)\<rparr>"
  by (cases newColor; cases newLabels; cases newPinned) (simp_all add: Let_def)

lemma updateNote_result:
  "updateNote s e i newTitle newContent newColor newLabels newPinned r =
     (let r' = logCall (UpdateDoc ''notes'' i) r in
      case updateDocFault e of
        Some err \<Rightarrow> (Inl err, r')
      | None \<Rightarrow>
          if i \<in> set (map fst (noteDocs r))
          then (Inr (), r'\<lparr>noteDocs :=
                  map (\<lambda>d. if fst d = i
                     then (i, (snd d)\<lparr>title := newTitle, content_note := newContent,
                            updatedAt_note := timestampNow e,
                            color := (case newColor of None \<Rightarrow> color (snd d) | Some c \<Rightarrow> c),
                            labels := (case newLabels of None \<Rightarrow> labels (snd d) | Some l \<Rightarrow> l),
                            isPinned := (case newPinned of None \<Rightarrow> isPinned (snd d) | Some p \<Rightarrow> p)\<rparr>)
                     else d)
                    (noteDocs r)\<rparr>)
          else (Inl (NotFoundError i), r'))"
  unfolding updateNote_def updateNoteDoc_def
  using updateNote_written [of _ newTitle newContent "timestampNow e" newColor newLabels newPinned]
  by (simp add: Let_def logCall_def split: option.splits)

text \<open>
  C10. When \<^verbatim>\<open>updateNote\<close> succeeds, the document with the given id has the new title,
  the new content, the present time as \<open>updatedAt\<close>, and the color, the labels and the
  pinned flag that were supplied (its own where none was); every other document is as
  before. When it fails, all documents are as before. In both cases the ids and, in every
  document, \<open>createdAt\<close>, \<open>userId\<close>, \<open>aiSummary\<close>, \<open>aiSuggestions\<close>, \<open>viewMode\<close> and
  \<open>checklistItems\<close> are unchanged, and so are the files and the blobs. The same fields
  are unchanged after the editor submits an existing note, whatever checklist the editor
  holds.
\<close>

theorem updateNote_frame:
  assumes "updateNote s e i newTitle newContent newColor newLabels newPinned r = (res, r')"
  shows "(res = Inr () \<longrightarrow>
            noteDocs r' =
              map (\<lambda>d. if fst d = i
                     then (i, (snd d)\<lparr>title := newTitle, content_note := newContent,
                            updatedAt_note := timestampNow e,
                            color := (case newColor of None \<Rightarrow> color (snd d) | Some c \<Rightarrow> c),
                            labels := (case newLabels of None \<Rightarrow> labels (snd d) | Some l \<Rightarrow> l),
                            isPinned := (case newPinned of None \<Rightarrow> isPinned (snd d) | Some p \<Rightarrow> p)\<rparr>)
                     else d)
                (noteDocs r)) \<and>
         (res \<noteq> Inr () \<longrightarrow> noteDocs r' = noteDocs r) \<and>
         map (\<lambda>d. (fst d, otherFields (snd d))) (noteDocs r') =
           map (\<lambda>d. (fst d, otherFields (snd d))) (noteDocs r) \<and>
         fileDocs r' = fileDocs r \<and> blobs r' = blobs r \<and>
         (note_editor ed = Some n \<longrightarrow>
            map (\<lambda>d. (fst d, otherFields (snd d))) (noteDocs (snd (handleSubmit s e ed r))) =
              map (\<lambda>d. (fst d, otherFields (snd d))) (noteDocs r))"
proof -
  have frame: "map (\<lambda>d. (fst d, otherFields (snd d))) (noteDocs (snd (updateNote s e j t c col labs pin r))) =
           map (\<lambda>d. (fst d, otherFields (snd d))) (noteDocs r)" for j t c col labs pin
    by (simp add: updateNote_result Let_def logCall_def otherFields_def comp_def
        split: option.splits)
  have ed: "note_editor ed = Some n \<longrightarrow>
            map (\<lambda>d. (fst d, otherFields (snd d))) (noteDocs (snd (handleSubmit s e ed r))) =
              map (\<lambda>d. (fst d, otherFields (snd d))) (noteDocs r)"
    using frame by (simp add: handleSubmit_def)
  have r': "r' = snd (updateNote s e i newTitle newContent newColor newLabels newPinned r)"
    and res: "res = fst (updateNote s e i newTitle newContent newColor newLabels newPinned r)"
    using assms by simp_all
  have 1: "res = Inr () \<longrightarrow> noteDocs r' =
              map (\<lambda>d. if fst d = i
                     then (i, (snd d)\<lparr>title := newTitle, content_note := newContent,
                            updatedAt_note := timestampNow e,
                            color := (case newColor of None \<Rightarrow> color (snd d) | Some c \<Rightarrow> c),
                            labels := (case newLabels of None \<Rightarrow> labels (snd d) | Some l \<Rightarrow> l),
                            isPinned := (case newPinned of None \<Rightarrow> isPinned (snd d) | Some p \<Rightarrow> p)\<rparr>)
                     else d)
                (noteDocs r)"
    unfolding r' res by (simp add: updateNote_result Let_def logCall_def split: option.splits)
  have 2: "res \<noteq> Inr () \<longrightarrow> noteDocs r' = noteDocs r"
    unfolding r' res by (simp add: updateNote_result Let_def logCall_def split: option.splits)
  have 3: "fileDocs r' = fileDocs r \<and> blobs r' = blobs r"
    unfolding r' by (simp add: updateNote_result Let_def logCall_def split: option.splits)
  from 1 2 3 ed frame [of i newTitle newContent newColor newLabels newPinned] show ?thesis
    unfolding r' by simp
qed

theorem updateNote_frame_witness:
  "note_editor editing = Some (toNote (''n1'', groceries)) \<and>
   checklistItems_editor editing \<noteq> checklistItems groceries \<and>
   fst (updateNote signedIn_notes quietEnv ''n1'' ''Groceries'' ''for Saturday'' None None None
          demoRemote) = Inr () \<and>
   noteDocs (snd (updateNote signedIn_notes quietEnv ''n1'' ''Groceries'' ''for Saturday''
                    None None None demoRemote)) =
     [(''n1'', groceries\<lparr>content_note := ''for Saturday'', updatedAt_note := 1700\<rparr>),
      (''n2'', passwords), (''n3'', ideas)] \<and>
   map (\<lambda>d. (fst d, otherFields (snd d)))
     (noteDocs (snd (handleSubmit signedIn_notes quietEnv editing demoRemote))) =
   map (\<lambda>d. (fst d, otherFields (snd d))) (noteDocs demoRemote) \<and>
   fst (updateNote signedIn_notes quietEnv ''n9'' ''Groceries'' ''for Saturday'' None None None
          demoRemote) = Inl (NotFoundError ''n9'') \<and>
   noteDocs (snd (updateNote signedIn_notes quietEnv ''n9'' ''Groceries'' ''for Saturday''
                    None None None demoRemote)) = noteDocs demoRemote"
proof -
  have missing: "fst (updateNote signedIn_notes quietEnv ''n9'' ''Groceries'' ''for Saturday''
      None None None demoRemote) = Inl (NotFoundError ''n9'')"
    by (simp add: updateNote_result demoRemote_def quietEnv_def Let_def)
  have opened: "note_editor editing = Some (toNote (''n1'', groceries))"
    by (simp add: editing_def)
  have edited: "checklistItems_editor editing \<noteq> checklistItems groceries"
    by (simp add: editing_def groceries_def)
  have resolved: "fst (updateNote signedIn_notes quietEnv ''n1'' ''Groceries'' ''for Saturday''
      None None None demoRemote) = Inr ()"
    by (simp add: updateNote_result demoRemote_def quietEnv_def Let_def)
  have same: "groceries\<lparr>title := ''Groceries''\<rparr> = groceries"
    by (simp add: groceries_def)
  show ?thesis
    using updateNote_frame
      [OF prod.collapse [symmetric],
        of signedIn_notes quietEnv "''n1''" "''Groceries''" "''for Saturday''" None None None
          demoRemote editing "toNote (''n1'', groceries)"]
      updateNote_frame
      [OF prod.collapse [symmetric],
        of signedIn_notes quietEnv "''n9''" "''Groceries''" "''for Saturday''" None None None
          demoRemote]
      opened edited resolved missing
    by (simp add: demoRemote_def quietEnv_def same groceries_def)
qed


end
